theory Spec2Isabelle
  imports Main "HOL-Library.Sublist"
begin

section \<open>foyer/utils/io.py: guarded import of optional packages\<close>

text \<open>
  The module defines the exception class \<open>DelayImportError\<close>, the table \<open>MESSAGES\<close> of
  installation hints, the function \<open>import_\<close> and the flag \<open>has_mbuild\<close>.  Python strings
  are \<open>string\<close>, Python integers are \<open>int\<close>, an exception is a value, and everything
  \<open>import_\<close> reads from or writes to the interpreter is explicit: the host's import
  machinery, the call stack and the platform constants of \<open>os\<close> are an environment, the
  module's global names and the two standard streams are a state that is passed through.
\<close>

subsection \<open>Exceptions\<close>

text \<open>
  The classes that occur: the built-in ones, \<open>unittest.SkipTest\<close>, and
  \<open>class DelayImportError(ImportError, SkipTest)\<close> of the module.  \<open>OtherError n\<close> stands
  for any further class \<open>n\<close> derived directly from \<open>Exception\<close>.  \<open>mro\<close> is the method
  resolution order of each class (without \<open>object\<close>).
\<close>

datatype py_class =
    BaseException | Exception
  | ImportError | ModuleNotFoundError
  | SkipTest
  | DelayImportError
  | LookupError | KeyError | IndexError
  | ValueError
  | OtherError string

fun mro :: "py_class \<Rightarrow> py_class list" where
  "mro BaseException = [BaseException]"
| "mro Exception = [Exception, BaseException]"
| "mro ImportError = [ImportError, Exception, BaseException]"
| "mro ModuleNotFoundError = [ModuleNotFoundError, ImportError, Exception, BaseException]"
| "mro SkipTest = [SkipTest, Exception, BaseException]"
| "mro DelayImportError = [DelayImportError, ImportError, SkipTest, Exception, BaseException]"
| "mro LookupError = [LookupError, Exception, BaseException]"
| "mro KeyError = [KeyError, LookupError, Exception, BaseException]"
| "mro IndexError = [IndexError, LookupError, Exception, BaseException]"
| "mro ValueError = [ValueError, Exception, BaseException]"
| "mro (OtherError n) = [OtherError n, Exception, BaseException]"

text \<open>An exception object: its class and the argument it was raised with.\<close>

datatype exn = Exn (cls: py_class) (arg: string)

definition isinstance :: "exn \<Rightarrow> py_class \<Rightarrow> bool" where
  "isinstance e c = (c \<in> set (mro (cls e)))"

subsection \<open>Strings\<close>

definition NL :: char where
  "NL = CHR 0x0A"

definition TAB :: char where
  "TAB = CHR 0x09"

definition ESC :: char where
  "ESC = CHR 0x1B"

text \<open>\<open>str(n)\<close> for an integer: decimal digits, a minus sign when negative.\<close>

definition digit_char :: "nat \<Rightarrow> char" where
  "digit_char d = char_of (48 + d)"

fun str_nat :: "nat \<Rightarrow> string" where
  "str_nat n = (if n < 10 then [digit_char n] else str_nat (n div 10) @ [digit_char (n mod 10)])"

declare str_nat.simps [simp del]

definition str_int :: "int \<Rightarrow> string" where
  "str_int i = (if i < 0 then CHR ''-'' # str_nat (nat (- i)) else str_nat (nat i))"

text \<open>
  \<open>s.split(sep)\<close>: the pieces of \<open>s\<close> between the occurrences of \<open>sep\<close>, found from left to
  right; an empty separator raises \<open>ValueError\<close>.  \<open>split_from sep cur s\<close> has read the
  piece \<open>cur\<close> so far.
\<close>

function split_from :: "string \<Rightarrow> string \<Rightarrow> string \<Rightarrow> string list" where
  "split_from sep cur s =
     (if s = [] then [cur]
      else if sep \<noteq> [] \<and> prefix sep s then cur # split_from sep [] (drop (length sep) s)
      else split_from sep (cur @ [hd s]) (tl s))"
  by pat_completeness auto
termination
  by (relation "measure (\<lambda>(sep, cur, s). length s)") auto

declare split_from.simps [simp del]

definition str_split :: "string \<Rightarrow> string \<Rightarrow> exn + string list" where
  "str_split s sep =
     (if sep = [] then Inl (Exn ValueError ''empty separator'') else Inr (split_from sep [] s))"

text \<open>\<open>sep.join(xs)\<close>.\<close>

fun str_join :: "string \<Rightarrow> string list \<Rightarrow> string" where
  "str_join sep [] = []"
| "str_join sep [x] = x"
| "str_join sep (x # y # ys) = x @ sep @ str_join sep (y # ys)"

text \<open>\<open>max(...)\<close> of a sequence of integers; the empty sequence raises \<open>ValueError\<close>.\<close>

definition py_max :: "nat list \<Rightarrow> exn + nat" where
  "py_max xs =
     (case xs of
        [] \<Rightarrow> Inl (Exn ValueError ''max() arg is an empty sequence'')
      | y # ys \<Rightarrow> Inr (fold max ys y))"

subsection \<open>\<open>str.format\<close> with keyword arguments\<close>

text \<open>
  \<open>template.format(**kw)\<close> for string-valued keyword arguments (an integer argument is
  passed as its \<open>str\<close>).  Literal text is copied, \<open>{{\<close> and \<open>}}\<close> give one brace, a
  replacement field \<open>{name}\<close> gives the value of \<open>name\<close>, a name that is no keyword
  raises \<open>KeyError\<close>, and a brace that is neither doubled nor part of a field raises
  \<open>ValueError\<close>.  The result \<open>None\<close> marks the templates outside this fragment (a
  positional field, or a field with a conversion, a format specification, an attribute,
  an index or a nested brace); nothing is derived from it.
\<close>

definition emit :: "string \<Rightarrow> (exn + string) option \<Rightarrow> (exn + string) option" where
  "emit s r = (case r of Some (Inr t) \<Rightarrow> Some (Inr (s @ t)) | _ \<Rightarrow> r)"

definition is_digit :: "char \<Rightarrow> bool" where
  "is_digit c = (c \<in> set ''0123456789'')"

fun fmt_text :: "(string \<times> string) list \<Rightarrow> string \<Rightarrow> (exn + string) option"
  and fmt_field :: "(string \<times> string) list \<Rightarrow> string \<Rightarrow> string \<Rightarrow> (exn + string) option"
where
  "fmt_text kw [] = Some (Inr [])"
| "fmt_text kw (c # cs) =
     (if c = CHR ''{'' then
        (case cs of
           [] \<Rightarrow> Some (Inl (Exn ValueError ''Single '{' encountered in format string''))
         | d # ds \<Rightarrow>
             if d = CHR ''{'' then emit ''{'' (fmt_text kw ds) else fmt_field kw [] cs)
      else if c = CHR ''}'' then
        (case cs of
           [] \<Rightarrow> Some (Inl (Exn ValueError ''Single '}' encountered in format string''))
         | d # ds \<Rightarrow>
             if d = CHR ''}'' then emit ''}'' (fmt_text kw ds)
             else Some (Inl (Exn ValueError ''Single '}' encountered in format string'')))
      else emit [c] (fmt_text kw cs))"
| "fmt_field kw name [] =
     Some (Inl (Exn ValueError ''expected '}' before end of string''))"
| "fmt_field kw name (c # cs) =
     (if c = CHR ''}'' then
        (if list_all is_digit name then None
         else
           (case map_of kw name of
              None \<Rightarrow> Some (Inl (Exn KeyError name))
            | Some v \<Rightarrow> emit v (fmt_text kw cs)))
      else if c \<in> set ''{!:.['' then None
      else fmt_field kw (name @ [c]) cs)"

definition str_format :: "string \<Rightarrow> (string \<times> string) list \<Rightarrow> (exn + string) option" where
  "str_format template kw = fmt_text kw template"

subsection \<open>\<open>textwrap.dedent\<close>\<close>

text \<open>
  The standard library's function, after the regular-expression implementation in
  \<open>Lib/textwrap.py\<close>, line by line: a line of spaces and tabs only is emptied; the
  margin is the longest string of spaces and tabs that begins every line holding another
  character, found by the loop over the lines' indentations; a non-empty margin is
  removed from the start of each line that begins with it.
\<close>

definition is_blank :: "char \<Rightarrow> bool" where
  "is_blank c = (c = CHR '' '' \<or> c = TAB)"

definition strip_whitespace_only :: "string \<Rightarrow> string" where
  "strip_whitespace_only l = (if l \<noteq> [] \<and> list_all is_blank l then [] else l)"

definition leading_whitespace :: "string \<Rightarrow> string option" where
  "leading_whitespace l =
     (if dropWhile is_blank l = [] then None else Some (takeWhile is_blank l))"

fun first_difference :: "string \<Rightarrow> string \<Rightarrow> nat option" where
  "first_difference (x # xs) (y # ys) =
     (if x \<noteq> y then Some 0 else map_option Suc (first_difference xs ys))"
| "first_difference _ _ = None"

definition margin_step :: "string option \<Rightarrow> string \<Rightarrow> string option" where
  "margin_step margin indent =
     (case margin of
        None \<Rightarrow> Some indent
      | Some mg \<Rightarrow>
          if prefix mg indent then Some mg
          else if prefix indent mg then Some indent
          else (case first_difference mg indent of
                  Some i \<Rightarrow> Some (take i mg)
                | None \<Rightarrow> Some mg))"

definition remove_margin :: "string \<Rightarrow> string \<Rightarrow> string" where
  "remove_margin mg l = (if prefix mg l then drop (length mg) l else l)"

definition dedent :: "string \<Rightarrow> string" where
  "dedent text =
     (let lines = map strip_whitespace_only (split_from [NL] [] text);
          indents = List.map_filter leading_whitespace lines;
          margin = foldl margin_step None indents
      in case margin of
           None \<Rightarrow> str_join [NL] lines
         | Some mg \<Rightarrow>
             if mg = [] then str_join [NL] lines
             else str_join [NL] (map (remove_margin mg) lines))"

subsection \<open>Environment and state\<close>

text \<open>
  One entry of \<open>inspect.getouterframes\<close>; \<open>import_\<close> reads the file name and the line
  number and binds the function name.
\<close>

record frame_info =
  filename :: string
  lineno :: int
  function_name :: string

text \<open>
  What a call finds around it.  \<open>import_module\<close> is the outcome of the host's import
  machinery for a module name: the module object of type \<open>'m\<close>, or the exception raised.
  \<open>getouterframes\<close> is the list \<open>inspect.getouterframes(inspect.currentframe())\<close> seen
  inside \<open>import_\<close>: entry 0 is the frame of \<open>import_\<close> itself, entry 1 its caller.
  \<open>os_linesep\<close> and \<open>os_path_basename\<close> are \<open>os.linesep\<close> and \<open>os.path.basename\<close>, which
  depend on the platform.
\<close>

record 'm env =
  import_module :: "string \<Rightarrow> exn + 'm"
  getouterframes :: "frame_info list"
  os_linesep :: string
  os_path_basename :: "string \<Rightarrow> string"

text \<open>
  The module's global names that change, the two streams, and \<open>import_calls\<close>, the
  module names handed to the import machinery so far (kept so that the number of import
  attempts can be stated).  A dictionary is the list of its items in insertion order;
  \<open>None\<close> in \<open>has_mbuild\<close> or \<open>mbuild\<close> means that the name is not bound.  What the code
  of an imported module itself prints, and the chaining of exceptions through
  \<open>__context__\<close>, are not part of the model.
\<close>

record 'm state =
  MESSAGES :: "(string \<times> string) list"
  has_mbuild :: "bool option"
  mbuild :: "'m option"
  sys_stderr :: string
  sys_stdout :: string
  import_calls :: "string list"

text \<open>\<open>d[k] = v\<close>: the value of an existing key is replaced in place, a new key is appended.\<close>

fun setitem :: "'k \<Rightarrow> 'v \<Rightarrow> ('k \<times> 'v) list \<Rightarrow> ('k \<times> 'v) list" where
  "setitem k v [] = [(k, v)]"
| "setitem k v ((k', v') # d) = (if k' = k then (k, v) # d else (k', v') # setitem k v d)"

text \<open>\<open>xs[1]\<close>.\<close>

definition index1 :: "'a list \<Rightarrow> exn + 'a" where
  "index1 xs =
     (case xs of
        _ # x # _ \<Rightarrow> Inr x
      | _ \<Rightarrow> Inl (Exn IndexError ''list index out of range''))"

text \<open>\<open>print(s, file=sys.stderr)\<close>.\<close>

definition print_stderr :: "string \<Rightarrow> 'm state \<Rightarrow> 'm state" where
  "print_stderr s w = w\<lparr>sys_stderr := sys_stderr w @ s @ [NL]\<rparr>"

text \<open>\<open>posixpath.basename\<close>: what follows the last slash.\<close>

definition posix_basename :: "string \<Rightarrow> string" where
  "posix_basename p = rev (takeWhile (\<lambda>c. c \<noteq> CHR ''/'') (rev p))"

subsection \<open>The table of hints\<close>

definition mbuild_message :: string where
  \<open>mbuild_message =
     ''\<newline>'' @
     ''\<newline>'' @
     ''The code at {filename}:{line_number} requires the "mbuild" package\<newline>'' @
     ''\<newline>'' @
     ''mbuild can be installed using:\<newline>'' @
     ''\<newline>'' @
     ''# conda install -c conda-forge mbuild\<newline>'' @
     ''\<newline>''\<close>

definition gmso_message :: string where
  \<open>gmso_message =
     ''\<newline>'' @
     ''\<newline>'' @
     ''The code at {filename}:{line_number} requires the "gmso" package\<newline>'' @
     ''\<newline>'' @
     ''gmso can be installed using:\<newline>'' @
     ''\<newline>'' @
     ''# conda install -c conda-forge gmso\<newline>''\<close>

definition openff_toolkit_message :: string where
  \<open>openff_toolkit_message =
     ''\<newline>'' @
     ''\<newline>'' @
     ''The code at {filename}:{line_number} requires the "openff-toolkit" package\<newline>'' @
     ''\<newline>'' @
     ''openff-toolkit can be installed using:\<newline>'' @
     ''\<newline>'' @
     ''# conda install -c conda-forge openff-toolkit\<newline>''\<close>

text \<open>
  \<open>MESSAGES = dict()\<close> and the three assignments \<open>MESSAGES[...] = ...\<close> at the top of the
  module.
\<close>

definition define_MESSAGES :: "'m state \<Rightarrow> 'm state" where
  "define_MESSAGES w0 =
     (let w1 = w0\<lparr>MESSAGES := []\<rparr>;
          w2 = w1\<lparr>MESSAGES := setitem ''mbuild'' mbuild_message (MESSAGES w1)\<rparr>;
          w3 = w2\<lparr>MESSAGES := setitem ''gmso'' gmso_message (MESSAGES w2)\<rparr>;
          w4 = w3\<lparr>MESSAGES :=
                 setitem ''openff.toolkit'' openff_toolkit_message (MESSAGES w3)\<rparr>
      in w4)"

subsection \<open>\<open>import_\<close>\<close>

text \<open>
  The body of \<open>import_\<close> after the table lookup has succeeded: the caller's frame, the
  formatted and dedented message, the bar, the four \<open>print\<close> calls and the final
  \<open>raise DelayImportError(m)\<close>.
\<close>

definition explain :: "'m env \<Rightarrow> string \<Rightarrow> 'm state \<Rightarrow> ((exn + 'm) \<times> 'm state) option" where
  "explain env message w =
     (case index1 (getouterframes env) of
        Inl e \<Rightarrow> Some (Inl e, w)
      | Inr caller \<Rightarrow>
          (case str_format message
                  [(''filename'', os_path_basename env (filename caller)),
                   (''line_number'', str_int (lineno caller))] of
             None \<Rightarrow> None
           | Some (Inl e) \<Rightarrow> Some (Inl e, w)
           | Some (Inr m0) \<Rightarrow>
               (let m = dedent m0 in
                case str_split m (os_linesep env) of
                  Inl e \<Rightarrow> Some (Inl e, w)
                | Inr pieces \<Rightarrow>
                    (case py_max (map length pieces) of
                       Inl e \<Rightarrow> Some (Inl e, w)
                     | Inr n \<Rightarrow>
                         (let bar = (ESC # ''[91m'') @ replicate n (CHR ''#'') @ (ESC # ''[0m'');
                              w1 = print_stderr [] w;
                              w2 = print_stderr bar w1;
                              w3 = print_stderr m w2;
                              w4 = print_stderr bar w3
                          in Some (Inl (Exn DelayImportError m), w4))))))"

text \<open>
  \<open>import_(module)\<close>, written \<open>import'\<close> here since a name cannot end with an
  underscore.  The outer \<open>try\<close> returns the imported module; its handler catches
  instances of \<open>ImportError\<close> only.  In the handler, the inner \<open>try\<close> looks the module name
  up in \<open>MESSAGES\<close>; the \<open>KeyError\<close> handler builds a message and raises \<open>ImportError\<close>.
\<close>

definition import' :: "'m env \<Rightarrow> string \<Rightarrow> 'm state \<Rightarrow> ((exn + 'm) \<times> 'm state) option" where
  "import' env module w0 =
     (let w = w0\<lparr>import_calls := import_calls w0 @ [module]\<rparr> in
      case import_module env module of
        Inr loaded \<Rightarrow> Some (Inr loaded, w)
      | Inl e \<Rightarrow>
          if \<not> isinstance e ImportError then Some (Inl e, w)
          else
            (case map_of (MESSAGES w) module of
               None \<Rightarrow>
                 (let message =
                        ''The code at {filename}:{line_number} requires the '' @ module
                          @ '' package''
                  in Some (Inl (Exn ImportError (''No module named '' @ module)), w))
             | Some message \<Rightarrow> explain env message w))"

subsection \<open>The flag \<open>has_mbuild\<close>\<close>

text \<open>
  The \<open>try\<close> statement at the end of the module: \<open>import mbuild\<close> binds the name,
  \<open>has_mbuild = True\<close>, \<open>del mbuild\<close> unbinds it; the handler for \<open>ImportError\<close> sets
  \<open>has_mbuild = False\<close>; any other exception leaves the statement.
\<close>

definition try_import_mbuild :: "'m env \<Rightarrow> 'm state \<Rightarrow> (exn + unit) \<times> 'm state" where
  "try_import_mbuild env w0 =
     (let w = w0\<lparr>import_calls := import_calls w0 @ [''mbuild'']\<rparr> in
      case import_module env ''mbuild'' of
        Inr loaded \<Rightarrow>
          (let w1 = w\<lparr>mbuild := Some loaded\<rparr>;
               w2 = w1\<lparr>has_mbuild := Some True\<rparr>;
               w3 = w2\<lparr>mbuild := None\<rparr>
           in (Inr (), w3))
      | Inl e \<Rightarrow>
          if isinstance e ImportError then (Inr (), w\<lparr>has_mbuild := Some False\<rparr>)
          else (Inl e, w))"

text \<open>The module's top-level code, run when the module is first imported.\<close>

definition module_body :: "'m env \<Rightarrow> 'm state \<Rightarrow> (exn + unit) \<times> 'm state" where
  "module_body env w0 = try_import_mbuild env (define_MESSAGES w0)"

subsection \<open>Notions of the specification\<close>

text \<open>
  The specification speaks of a template whose placeholders are replaced, of the lines
  of the message and of a generic fallback text.  These are defined here on their own,
  not through the functions above, so that the program can be compared with them.
  \<open>substitute kw s\<close> replaces, from left to right, every occurrence of \<open>{k}\<close> for a key
  \<open>k\<close> of \<open>kw\<close> by its value.
\<close>

function substitute :: "(string \<times> string) list \<Rightarrow> string \<Rightarrow> string" where
  "substitute kw [] = []"
| "substitute kw (c # cs) =
     (case find (\<lambda>(k, v). prefix (''{'' @ k @ ''}'') (c # cs)) kw of
        Some (k, v) \<Rightarrow> v @ substitute kw (drop (length k + 1) cs)
      | None \<Rightarrow> c # substitute kw cs)"
  by pat_completeness auto
termination
  by (relation "measure (\<lambda>(kw, s). length s)") auto

text \<open>The lines of a text: what stands between its newline characters.\<close>

fun lines_of :: "string \<Rightarrow> string list" where
  "lines_of [] = [[]]"
| "lines_of (c # cs) =
     (if c = NL then [] # lines_of cs
      else (case lines_of cs of l # ls \<Rightarrow> (c # l) # ls | [] \<Rightarrow> [[c]]))"

definition longest_line :: "string \<Rightarrow> nat" where
  "longest_line s = Max (length ` set (lines_of s))"

text \<open>A bar of \<open>n\<close> characters \<open>#\<close> between the escape codes for bright red and for reset.\<close>

definition red_bar :: "nat \<Rightarrow> string" where
  "red_bar n = (ESC # ''[91m'') @ replicate n (CHR ''#'') @ (ESC # ''[0m'')"

text \<open>
  The fallback message of the specification for a module name, a file base name and a
  line number.
\<close>

definition fallback_text :: "string \<Rightarrow> string \<Rightarrow> string \<Rightarrow> string" where
  "fallback_text module base line =
     ''The code at '' @ base @ '':'' @ line @ '' requires the '' @ module @ '' package''"

subsection \<open>Concrete environments\<close>

text \<open>
  Module objects, import machineries, call stacks and platforms on which the theorems
  below are evaluated.
\<close>

datatype module_object = Module string

definition nothing_installed :: "string \<Rightarrow> exn + module_object" where
  "nothing_installed name =
     Inl (Exn ModuleNotFoundError (''No module named '' @ [CHR 0x27] @ name @ [CHR 0x27]))"

definition only_mbuild :: "string \<Rightarrow> exn + module_object" where
  "only_mbuild name =
     (if name = ''mbuild'' then Inr (Module ''mbuild'') else nothing_installed name)"

text \<open>A \<open>gmso\<close> that is installed and whose own code raises \<open>RuntimeError\<close> when it is run.\<close>

definition broken_gmso :: "string \<Rightarrow> exn + module_object" where
  "broken_gmso name =
     (if name = ''gmso'' then Inl (Exn (OtherError ''RuntimeError'') ''unsupported version'')
      else nothing_installed name)"

definition call_stack :: "frame_info list" where
  "call_stack =
     [\<lparr>filename = ''/opt/foyer/utils/io.py'', lineno = 91, function_name = ''import_''\<rparr>,
      \<lparr>filename = ''/home/user/project/run.py'', lineno = 12,
       function_name = ''<module>''\<rparr>]"

definition posix :: "(string \<Rightarrow> exn + 'm) \<Rightarrow> frame_info list \<Rightarrow> 'm env" where
  "posix machinery stack =
     \<lparr>import_module = machinery, getouterframes = stack,
      os_linesep = [NL], os_path_basename = posix_basename\<rparr>"

text \<open>
  Windows: \<open>os.linesep\<close> is carriage return and newline.  \<open>ntpath.basename\<close> for a path
  without a UNC or device prefix: a drive letter with its colon is set aside, and what
  follows the last backslash or slash remains.
\<close>

definition ntpath_basename :: "string \<Rightarrow> string" where
  "ntpath_basename p =
     (let rest = (if 2 \<le> length p \<and> p ! 1 = CHR '':'' then drop 2 p else p)
      in rev (takeWhile (\<lambda>c. c \<noteq> CHR 0x5C \<and> c \<noteq> CHR ''/'') (rev rest)))"

definition nt_call_stack :: "frame_info list" where
  "nt_call_stack =
     [\<lparr>filename = ''C:'' @ [CHR 0x5C] @ ''foyer'' @ [CHR 0x5C] @ ''utils'' @ [CHR 0x5C] @ ''io.py'',
       lineno = 91, function_name = ''import_''\<rparr>,
      \<lparr>filename = ''C:'' @ [CHR 0x5C] @ ''work'' @ [CHR 0x5C] @ ''run.py'', lineno = 12,
       function_name = ''<module>''\<rparr>]"

definition nt :: "(string \<Rightarrow> exn + 'm) \<Rightarrow> frame_info list \<Rightarrow> 'm env" where
  "nt machinery stack =
     \<lparr>import_module = machinery, getouterframes = stack,
      os_linesep = [CHR 0x0D, NL], os_path_basename = ntpath_basename\<rparr>"

text \<open>
  The state before the module is run: the flag and the name \<open>mbuild\<close> not bound, the
  table empty, nothing written.
\<close>

definition fresh :: "'m state" where
  "fresh =
     \<lparr>MESSAGES = [], has_mbuild = None, mbuild = None,
      sys_stderr = [], sys_stdout = [], import_calls = []\<rparr>"

text \<open>The state once the module has been run where no optional package is installed.\<close>

definition loaded_bare :: "module_object state" where
  "loaded_bare = snd (module_body (posix nothing_installed call_stack) fresh)"

text \<open>
  The message for \<open>gmso\<close> when \<open>import_\<close> is called from line 12 of \<open>run.py\<close>.
\<close>

definition gmso_text :: string where
  \<open>gmso_text =
     ''\<newline>'' @
     ''\<newline>'' @
     ''The code at run.py:12 requires the "gmso" package\<newline>'' @
     ''\<newline>'' @
     ''gmso can be installed using:\<newline>'' @
     ''\<newline>'' @
     ''# conda install -c conda-forge gmso\<newline>''\<close>

section \<open>Properties\<close>

subsection \<open>Strings: auxiliary facts\<close>

lemma split_from_not_Nil: "split_from sep cur s \<noteq> []"
  by (induction sep cur s rule: split_from.induct) (subst split_from.simps, simp)

lemma fold_max_Max: "fold max ys (y::nat) = Max (set (y # ys))"
  by (rule Max.set_eq_fold [symmetric])

lemma py_max_lengths:
  assumes "xs \<noteq> []"
  shows "py_max (map length xs) = Inr (Max (length ` set xs))"
proof -
  from assms obtain y ys where xs: "xs = y # ys"
    by (cases xs) auto
  have "fold max (map length ys) (length y) = Max (set (length y # map length ys))"
    by (rule fold_max_Max)
  also have "set (length y # map length ys) = length ` set xs"
    by (simp add: xs)
  finally show ?thesis
    by (simp add: py_max_def xs)
qed

lemma lines_of_not_Nil: "lines_of s \<noteq> []"
  by (induction s) (auto split: list.splits)

lemma split_from_NL: "split_from [NL] cur s = (cur @ hd (lines_of s)) # tl (lines_of s)"
proof (induction s arbitrary: cur)
  case Nil
  show ?case by (subst split_from.simps) simp
next
  case (Cons c cs)
  show ?case
  proof (cases "c = NL")
    case True
    then show ?thesis
      using Cons [of "[]"] lines_of_not_Nil [of cs]
      by (subst split_from.simps) (cases "lines_of cs"; simp)
  next
    case False
    then show ?thesis
      using Cons [of "cur @ [c]"] lines_of_not_Nil [of cs]
      by (subst split_from.simps) (cases "lines_of cs"; simp)
  qed
qed

lemma split_NL_lines: "split_from [NL] [] s = lines_of s"
  using lines_of_not_Nil [of s] by (simp add: split_from_NL)

lemma dedent_NL: "\<exists>t. dedent (NL # s) = NL # t"
proof -
  define L where "L = map strip_whitespace_only (split_from [NL] [] s)"
  have "L \<noteq> []"
    by (simp add: L_def split_from_not_Nil)
  then obtain x xs where Lx: "L = x # xs"
    by (cases L) auto
  have sp: "map strip_whitespace_only (split_from [NL] [] (NL # s)) = [] # L"
    by (subst split_from.simps) (simp add: L_def strip_whitespace_only_def)
  have j: "\<And>g. str_join [NL] ([] # map g L) = NL # str_join [NL] (map g L)"
    by (simp add: Lx)
  have j0: "str_join [NL] ([] # L) = NL # str_join [NL] L"
    by (simp add: Lx)
  show ?thesis
    unfolding dedent_def sp Let_def
    by (auto simp: j j0 remove_margin_def split: option.splits)
qed

subsection \<open>The table\<close>

lemma table_defined:
  "MESSAGES (define_MESSAGES w) =
     [(''mbuild'', mbuild_message), (''gmso'', gmso_message),
      (''openff.toolkit'', openff_toolkit_message)]"
  by (simp add: define_MESSAGES_def)

lemma table_templates:
  assumes "map_of (MESSAGES (define_MESSAGES w)) module = Some template"
  shows "template = mbuild_message \<or> template = gmso_message
      \<or> template = openff_toolkit_message"
  using assms by (auto simp: table_defined split: if_splits)

lemma format_mbuild:
  "str_format mbuild_message [(''filename'', f), (''line_number'', l)] =
     Some (Inr (substitute [(''filename'', f), (''line_number'', l)] mbuild_message))"
  by (simp add: str_format_def mbuild_message_def emit_def is_digit_def)

lemma format_gmso:
  "str_format gmso_message [(''filename'', f), (''line_number'', l)] =
     Some (Inr (substitute [(''filename'', f), (''line_number'', l)] gmso_message))"
  by (simp add: str_format_def gmso_message_def emit_def is_digit_def)

lemma format_openff_toolkit:
  "str_format openff_toolkit_message [(''filename'', f), (''line_number'', l)] =
     Some (Inr (substitute [(''filename'', f), (''line_number'', l)] openff_toolkit_message))"
  by (simp add: str_format_def openff_toolkit_message_def emit_def is_digit_def)

lemma format_table:
  assumes "map_of (MESSAGES (define_MESSAGES w)) module = Some template"
  shows "str_format template [(''filename'', f), (''line_number'', l)] =
     Some (Inr (substitute [(''filename'', f), (''line_number'', l)] template))"
  using table_templates [OF assms] format_mbuild format_gmso format_openff_toolkit
  by blast

lemma substitute_table_NL:
  assumes "map_of (MESSAGES (define_MESSAGES w)) module = Some template"
  shows "\<exists>t. substitute [(''filename'', f), (''line_number'', l)] template = NL # t"
  using table_templates [OF assms]
  by (auto simp: mbuild_message_def gmso_message_def openff_toolkit_message_def NL_def)

lemma keys_setitem:
  "map fst (setitem k v d) = (if k \<in> fst ` set d then map fst d else map fst d @ [k])"
proof (induction d)
  case Nil
  show ?case by simp
next
  case (Cons p d)
  obtain k' v' where p: "p = (k', v')"
    by (cases p)
  show ?case
    by (cases "k' = k") (simp_all add: p Cons)
qed

lemma distinct_setitem:
  "distinct (map fst d) \<Longrightarrow> distinct (map fst (setitem k v d))"
  by (simp add: keys_setitem)

subsection \<open>The branches of \<open>import_\<close>\<close>

lemma import'_loaded:
  "import_module env module = Inr loaded \<Longrightarrow>
   import' env module w = Some (Inr loaded, w\<lparr>import_calls := import_calls w @ [module]\<rparr>)"
  by (simp add: import'_def)

lemma import'_not_caught:
  "import_module env module = Inl e \<Longrightarrow> \<not> isinstance e ImportError \<Longrightarrow>
   import' env module w = Some (Inl e, w\<lparr>import_calls := import_calls w @ [module]\<rparr>)"
  by (simp add: import'_def)

lemma import'_unlisted:
  "import_module env module = Inl e \<Longrightarrow> isinstance e ImportError \<Longrightarrow>
   map_of (MESSAGES w) module = None \<Longrightarrow>
   import' env module w =
     Some (Inl (Exn ImportError (''No module named '' @ module)),
           w\<lparr>import_calls := import_calls w @ [module]\<rparr>)"
  by (simp add: import'_def)

lemma import'_listed:
  assumes "import_module env module = Inl e" and "isinstance e ImportError"
    and "map_of (MESSAGES w) module = Some template"
    and "index1 (getouterframes env) = Inr caller"
    and "str_format template
           [(''filename'', os_path_basename env (filename caller)),
            (''line_number'', str_int (lineno caller))] = Some (Inr m0)"
    and "os_linesep env \<noteq> []"
  shows "import' env module w =
     Some (Inl (Exn DelayImportError (dedent m0)),
           w\<lparr>import_calls := import_calls w @ [module],
             sys_stderr := sys_stderr w @ [NL]
               @ red_bar (Max (length ` set (split_from (os_linesep env) [] (dedent m0)))) @ [NL]
               @ dedent m0 @ [NL]
               @ red_bar (Max (length ` set (split_from (os_linesep env) [] (dedent m0)))) @ [NL]\<rparr>)"
  using assms
  by (simp add: import'_def explain_def str_split_def py_max_lengths split_from_not_Nil
      print_stderr_def red_bar_def Let_def)

lemma explain_MESSAGES:
  "explain env message w = Some (r, w') \<Longrightarrow> MESSAGES w' = MESSAGES w"
  by (auto simp: explain_def print_stderr_def Let_def split: sum.splits option.splits)

lemma explain_sys_stdout:
  "explain env message w = Some (r, w') \<Longrightarrow> sys_stdout w' = sys_stdout w"
  by (auto simp: explain_def print_stderr_def Let_def split: sum.splits option.splits)

lemma import'_MESSAGES:
  "import' env module w = Some (r, w') \<Longrightarrow> MESSAGES w' = MESSAGES w"
  by (auto simp: import'_def Let_def split: sum.splits option.splits if_splits
      dest: explain_MESSAGES)

lemma import'_sys_stdout:
  "import' env module w = Some (r, w') \<Longrightarrow> sys_stdout w' = sys_stdout w"
  by (auto simp: import'_def Let_def split: sum.splits option.splits if_splits
      dest: explain_sys_stdout)

text \<open>
  Where \<open>os.linesep\<close> is the newline character, the bar printed for a listed module is
  as long as the longest line of the message.
\<close>

lemma import'_listed_newline:
  assumes "import_module env module = Inl e" and "isinstance e ImportError"
    and "map_of (MESSAGES w) module = Some template"
    and "index1 (getouterframes env) = Inr caller"
    and "str_format template
           [(''filename'', os_path_basename env (filename caller)),
            (''line_number'', str_int (lineno caller))] = Some (Inr m0)"
    and "os_linesep env = [NL]"
  shows "import' env module w =
     Some (Inl (Exn DelayImportError (dedent m0)),
           w\<lparr>import_calls := import_calls w @ [module],
             sys_stderr := sys_stderr w @ [NL]
               @ red_bar (longest_line (dedent m0)) @ [NL]
               @ dedent m0 @ [NL]
               @ red_bar (longest_line (dedent m0)) @ [NL]\<rparr>)"
  using import'_listed [OF assms(1-5)] assms(6)
  by (simp add: split_NL_lines longest_line_def)

subsection \<open>The state after the module has been run\<close>

lemma loaded_bare_eq:
  "loaded_bare =
     \<lparr>MESSAGES = [(''mbuild'', mbuild_message), (''gmso'', gmso_message),
        (''openff.toolkit'', openff_toolkit_message)],
      has_mbuild = Some False, mbuild = None, sys_stderr = [], sys_stdout = [],
      import_calls = [''mbuild'']\<rparr>"
  by (simp add: loaded_bare_def module_body_def try_import_mbuild_def define_MESSAGES_def
      posix_def nothing_installed_def fresh_def isinstance_def)

subsection \<open>Successful import\<close>

text \<open>
  Claim C3.  When the import of the module succeeds, \<open>import_\<close> returns the module object
  that the import machinery delivered, raises nothing, and leaves the error stream, the
  output stream and every global name as they were; the import machinery has been asked
  once.
\<close>

theorem import_success:
  assumes "import_module env module = Inr loaded"
  shows "\<exists>w'. import' env module w = Some (Inr loaded, w')
           \<and> sys_stderr w' = sys_stderr w \<and> sys_stdout w' = sys_stdout w
           \<and> MESSAGES w' = MESSAGES w \<and> has_mbuild w' = has_mbuild w \<and> mbuild w' = mbuild w
           \<and> import_calls w' = import_calls w @ [module]"
  using assms by (simp add: import'_def)

theorem import_success_witness:
  "import_module (posix only_mbuild call_stack) ''mbuild'' = Inr (Module ''mbuild'')
   \<and> (\<exists>w'. import' (posix only_mbuild call_stack) ''mbuild'' loaded_bare
               = Some (Inr (Module ''mbuild''), w')
          \<and> sys_stderr w' = [] \<and> sys_stdout w' = []
          \<and> import_calls w' = [''mbuild'', ''mbuild''])"
proof -
  have h: "import_module (posix only_mbuild call_stack) ''mbuild'' = Inr (Module ''mbuild'')"
    by (simp add: posix_def only_mbuild_def)
  show ?thesis
    using h import_success [OF h, of loaded_bare] by (auto simp: loaded_bare_eq)
qed

subsection \<open>A missing module that is not in the table\<close>

text \<open>
  Claim C10.  When the import fails with an \<open>ImportError\<close> and the module name is no key
  of \<open>MESSAGES\<close>, \<open>import_\<close> raises a plain \<open>ImportError\<close> (not a \<open>SkipTest\<close>) with the
  argument \<open>No module named <module>\<close> and writes nothing to either stream.  The message
  built in the handler is not used: the outcome is the same for every call stack, line
  separator and base-name function, so no caller location, no dedented text and no bar
  enters it.
\<close>

theorem import_unlisted_plain_ImportError:
  assumes "import_module env module = Inl e" and "isinstance e ImportError"
    and "map_of (MESSAGES w) module = None"
  shows "\<exists>x w'. import' env module w = Some (Inl x, w')
           \<and> x = Exn ImportError (''No module named '' @ module)
           \<and> \<not> isinstance x SkipTest
           \<and> sys_stderr w' = sys_stderr w \<and> sys_stdout w' = sys_stdout w
           \<and> (\<forall>stack sep base.
                 import' (env\<lparr>getouterframes := stack, os_linesep := sep,
                            os_path_basename := base\<rparr>) module w = Some (Inl x, w'))"
  using assms by (simp add: import'_def isinstance_def)

theorem import_unlisted_plain_ImportError_witness:
  "import_module (posix nothing_installed call_stack) ''foobar''
     = Inl (Exn ModuleNotFoundError (''No module named '' @ [CHR 0x27] @ ''foobar'' @ [CHR 0x27]))
   \<and> isinstance (Exn ModuleNotFoundError (''No module named '' @ [CHR 0x27] @ ''foobar'' @ [CHR 0x27]))
        ImportError
   \<and> map_of (MESSAGES loaded_bare) ''foobar'' = None
   \<and> (\<exists>w'. import' (posix nothing_installed call_stack) ''foobar'' loaded_bare
               = Some (Inl (Exn ImportError ''No module named foobar''), w')
          \<and> sys_stderr w' = [])"
proof -
  let ?e = "Exn ModuleNotFoundError (''No module named '' @ [CHR 0x27] @ ''foobar'' @ [CHR 0x27])"
  have h1: "import_module (posix nothing_installed call_stack) ''foobar'' = Inl ?e"
    by (simp add: posix_def nothing_installed_def)
  have h2: "isinstance ?e ImportError"
    by (simp add: isinstance_def)
  have h3: "map_of (MESSAGES loaded_bare) ''foobar'' = None"
    by (simp add: loaded_bare_eq)
  show ?thesis
    using h1 h2 h3 import_unlisted_plain_ImportError [OF h1 h2 h3]
    by (auto simp: loaded_bare_eq)
qed

subsection \<open>A missing module that is in the table\<close>

text \<open>
  Claim C6.  For a key of the table that the module defines, a failing import gives the
  message that is the key's template with \<open>{filename}\<close> replaced by the base name of the
  caller's file and \<open>{line_number}\<close> by the caller's line number, dedented.  It is the
  argument of the \<open>DelayImportError\<close> raised and the text printed between the two bars,
  and it differs from the generic fallback text.
\<close>

theorem import_listed_message:
  assumes "MESSAGES w = MESSAGES (define_MESSAGES w)"
    and "map_of (MESSAGES w) module = Some template"
    and "import_module env module = Inl e" and "isinstance e ImportError"
    and "index1 (getouterframes env) = Inr caller"
    and "os_linesep env \<noteq> []"
  shows "let base = os_path_basename env (filename caller);
             line = str_int (lineno caller);
             m = dedent (substitute [(''filename'', base), (''line_number'', line)] template)
         in (\<exists>bar w'. import' env module w = Some (Inl (Exn DelayImportError m), w')
               \<and> sys_stderr w' = sys_stderr w @ [NL] @ bar @ [NL] @ m @ [NL] @ bar @ [NL])
            \<and> m \<noteq> fallback_text module base line"
proof -
  define base where "base = os_path_basename env (filename caller)"
  define line where "line = str_int (lineno caller)"
  define m where
    "m = dedent (substitute [(''filename'', base), (''line_number'', line)] template)"
  from assms(1,2) have key: "map_of (MESSAGES (define_MESSAGES w)) module = Some template"
    by simp
  have fmt: "str_format template
       [(''filename'', os_path_basename env (filename caller)),
        (''line_number'', str_int (lineno caller))]
     = Some (Inr (substitute [(''filename'', base), (''line_number'', line)] template))"
    unfolding base_def line_def by (rule format_table [OF key])
  let ?bar = "red_bar (Max (length ` set (split_from (os_linesep env) [] m)))"
  let ?w' = "w\<lparr>import_calls := import_calls w @ [module],
      sys_stderr := sys_stderr w @ [NL] @ ?bar @ [NL] @ m @ [NL] @ ?bar @ [NL]\<rparr>"
  have "import' env module w = Some (Inl (Exn DelayImportError m), ?w')"
    using import'_listed [OF assms(3,4,2,5) fmt assms(6)] by (simp add: m_def)
  moreover have "sys_stderr ?w' = sys_stderr w @ [NL] @ ?bar @ [NL] @ m @ [NL] @ ?bar @ [NL]"
    by simp
  ultimately have run:
    "\<exists>bar w'. import' env module w = Some (Inl (Exn DelayImportError m), w')
      \<and> sys_stderr w' = sys_stderr w @ [NL] @ bar @ [NL] @ m @ [NL] @ bar @ [NL]"
    by blast
  obtain t where "substitute [(''filename'', base), (''line_number'', line)] template = NL # t"
    using substitute_table_NL [OF key] by blast
  then obtain t' where "m = NL # t'"
    using dedent_NL [of t] by (auto simp: m_def)
  then have "m \<noteq> fallback_text module base line"
    by (simp add: fallback_text_def NL_def)
  with run show ?thesis
    by (simp add: base_def line_def m_def Let_def)
qed

theorem import_listed_message_witness:
  "MESSAGES loaded_bare = MESSAGES (define_MESSAGES loaded_bare)
   \<and> map_of (MESSAGES loaded_bare) ''gmso'' = Some gmso_message
   \<and> import_module (posix nothing_installed call_stack) ''gmso''
       = Inl (Exn ModuleNotFoundError (''No module named '' @ [CHR 0x27] @ ''gmso'' @ [CHR 0x27]))
   \<and> isinstance (Exn ModuleNotFoundError (''No module named '' @ [CHR 0x27] @ ''gmso'' @ [CHR 0x27]))
        ImportError
   \<and> index1 (getouterframes (posix nothing_installed call_stack))
       = Inr \<lparr>filename = ''/home/user/project/run.py'', lineno = 12,
              function_name = ''<module>''\<rparr>
   \<and> os_linesep (posix nothing_installed call_stack) \<noteq> []
   \<and> (\<exists>bar w'. import' (posix nothing_installed call_stack) ''gmso'' loaded_bare
                   = Some (Inl (Exn DelayImportError gmso_text), w')
          \<and> sys_stderr w' = [NL] @ bar @ [NL] @ gmso_text @ [NL] @ bar @ [NL])
   \<and> gmso_text \<noteq> fallback_text ''gmso'' ''run.py'' ''12''"
proof -
  let ?env = "posix nothing_installed call_stack :: module_object env"
  let ?e = "Exn ModuleNotFoundError (''No module named '' @ [CHR 0x27] @ ''gmso'' @ [CHR 0x27])"
  let ?caller = "\<lparr>filename = ''/home/user/project/run.py'', lineno = 12,
      function_name = ''<module>''\<rparr>"
  have h1: "MESSAGES loaded_bare = MESSAGES (define_MESSAGES loaded_bare)"
    by (simp add: loaded_bare_eq table_defined)
  have h2: "map_of (MESSAGES loaded_bare) ''gmso'' = Some gmso_message"
    by (simp add: loaded_bare_eq)
  have h3: "import_module ?env ''gmso'' = Inl ?e"
    by (simp add: posix_def nothing_installed_def)
  have h4: "isinstance ?e ImportError"
    by (simp add: isinstance_def)
  have h5: "index1 (getouterframes ?env) = Inr ?caller"
    by (simp add: posix_def call_stack_def index1_def)
  have h6: "os_linesep ?env \<noteq> []"
    by (simp add: posix_def)
  have base: "os_path_basename ?env (filename ?caller) = ''run.py''"
    by (simp add: posix_def posix_basename_def)
  have line: "str_int (lineno ?caller) = ''12''"
    by code_simp
  have m: "dedent (substitute [(''filename'', ''run.py''), (''line_number'', ''12'')] gmso_message)
      = gmso_text"
    by code_simp
  have err: "sys_stderr loaded_bare = []"
    by (simp add: loaded_bare_eq)
  show ?thesis
    using h1 h2 h3 h4 h5 h6 import_listed_message [OF h1 h2 h3 h4 h5 h6]
    unfolding Let_def base line m by (simp add: err)
qed


subsection \<open>The flag \<open>has_mbuild\<close>\<close>

text \<open>
  Claim C7.  Running the module in a namespace where \<open>has_mbuild\<close> and \<open>mbuild\<close> are not
  yet bound sets \<open>has_mbuild\<close> to \<open>True\<close> when the import of \<open>mbuild\<close> succeeds and to
  \<open>False\<close> when it raises an \<open>ImportError\<close>; afterwards the flag is \<open>True\<close> exactly when
  the import succeeded, the name \<open>mbuild\<close> is not bound, and the import machinery has been
  asked for \<open>mbuild\<close> once.
\<close>

theorem has_mbuild_flag:
  assumes "has_mbuild w = None" and "mbuild w = None"
  shows "\<exists>r w'. module_body env w = (r, w')
      \<and> ((\<exists>loaded. import_module env ''mbuild'' = Inr loaded)
            \<longrightarrow> r = Inr () \<and> has_mbuild w' = Some True)
      \<and> ((\<exists>e. import_module env ''mbuild'' = Inl e \<and> isinstance e ImportError)
            \<longrightarrow> r = Inr () \<and> has_mbuild w' = Some False)
      \<and> (has_mbuild w' = Some True \<longleftrightarrow> (\<exists>loaded. import_module env ''mbuild'' = Inr loaded))
      \<and> mbuild w' = None
      \<and> import_calls w' = import_calls w @ [''mbuild'']"
proof (cases "import_module env ''mbuild''")
  case (Inr loaded)
  then show ?thesis
    using assms by (simp add: module_body_def try_import_mbuild_def define_MESSAGES_def)
next
  case (Inl e)
  then show ?thesis
    using assms
    by (cases "isinstance e ImportError")
      (simp_all add: module_body_def try_import_mbuild_def define_MESSAGES_def)
qed

theorem has_mbuild_flag_witness:
  "has_mbuild (fresh :: module_object state) = None
   \<and> mbuild (fresh :: module_object state) = None
   \<and> import_module (posix only_mbuild call_stack) ''mbuild'' = Inr (Module ''mbuild'')
   \<and> (\<exists>w'. module_body (posix only_mbuild call_stack) fresh = (Inr (), w')
          \<and> has_mbuild w' = Some True \<and> mbuild w' = None)
   \<and> isinstance (Exn ModuleNotFoundError (''No module named '' @ [CHR 0x27] @ ''mbuild'' @ [CHR 0x27]))
        ImportError
   \<and> import_module (posix nothing_installed call_stack) ''mbuild''
       = Inl (Exn ModuleNotFoundError (''No module named '' @ [CHR 0x27] @ ''mbuild'' @ [CHR 0x27]))
   \<and> (\<exists>w'. module_body (posix nothing_installed call_stack) fresh = (Inr (), w')
          \<and> has_mbuild w' = Some False \<and> mbuild w' = None)"
proof -
  let ?e = "Exn ModuleNotFoundError (''No module named '' @ [CHR 0x27] @ ''mbuild'' @ [CHR 0x27])"
  have f1: "has_mbuild (fresh :: module_object state) = None"
    and f2: "mbuild (fresh :: module_object state) = None"
    by (simp_all add: fresh_def)
  have yes: "import_module (posix only_mbuild call_stack) ''mbuild'' = Inr (Module ''mbuild'')"
    by (simp add: posix_def only_mbuild_def)
  have no: "import_module (posix nothing_installed call_stack) ''mbuild'' = Inl ?e"
    by (simp add: posix_def nothing_installed_def)
  have inst: "isinstance ?e ImportError"
    by (simp add: isinstance_def)
  from has_mbuild_flag [OF f1 f2, of "posix only_mbuild call_stack"] yes
  have a: "\<exists>w'. module_body (posix only_mbuild call_stack) fresh = (Inr (), w')
          \<and> has_mbuild w' = Some True \<and> mbuild w' = None"
    by auto
  from has_mbuild_flag [OF f1 f2, of "posix nothing_installed call_stack"] no inst
  have b: "\<exists>w'. module_body (posix nothing_installed call_stack) fresh = (Inr (), w')
          \<and> has_mbuild w' = Some False \<and> mbuild w' = None"
    by auto
  from f1 f2 yes no inst a b show ?thesis
    by simp
qed

subsection \<open>The table is only read\<close>

text \<open>
  Claim C8.  Whatever a call of \<open>import_\<close> returns or raises, \<open>MESSAGES\<close> is afterwards what
  it was before; the keys of the table that the module defines are pairwise distinct;
  and when a failing import meets a name that is no key, the error that reaches the
  caller is not a \<open>KeyError\<close>.
\<close>

theorem MESSAGES_read_only:
  "(\<forall>r w'. import' env module w = Some (r, w') \<longrightarrow> MESSAGES w' = MESSAGES w)
   \<and> distinct (map fst (MESSAGES (define_MESSAGES w)))
   \<and> (\<forall>e. import_module env module = Inl e \<and> isinstance e ImportError
            \<and> map_of (MESSAGES w) module = None
          \<longrightarrow> (\<exists>x w'. import' env module w = Some (Inl x, w') \<and> \<not> isinstance x KeyError))"
proof (intro conjI allI impI)
  fix r w'
  assume "import' env module w = Some (r, w')"
  then show "MESSAGES w' = MESSAGES w"
    by (rule import'_MESSAGES)
next
  show "distinct (map fst (MESSAGES (define_MESSAGES w)))"
    by (simp add: define_MESSAGES_def distinct_setitem)
next
  fix e
  assume "import_module env module = Inl e \<and> isinstance e ImportError
      \<and> map_of (MESSAGES w) module = None"
  then have "import' env module w =
      Some (Inl (Exn ImportError (''No module named '' @ module)),
            w\<lparr>import_calls := import_calls w @ [module]\<rparr>)"
    by (simp add: import'_unlisted)
  moreover have "\<not> isinstance (Exn ImportError (''No module named '' @ module)) KeyError"
    by (simp add: isinstance_def)
  ultimately show "\<exists>x w'. import' env module w = Some (Inl x, w') \<and> \<not> isinstance x KeyError"
    by blast
qed

theorem MESSAGES_read_only_witness:
  "import' (posix nothing_installed call_stack) ''gmso'' loaded_bare =
     Some (Inl (Exn DelayImportError gmso_text),
           loaded_bare\<lparr>import_calls := [''mbuild'', ''gmso''],
             sys_stderr := [NL] @ red_bar 49 @ [NL] @ gmso_text @ [NL] @ red_bar 49 @ [NL]\<rparr>)
   \<and> MESSAGES (loaded_bare\<lparr>import_calls := [''mbuild'', ''gmso''],
             sys_stderr := [NL] @ red_bar 49 @ [NL] @ gmso_text @ [NL] @ red_bar 49 @ [NL]\<rparr>)
       = MESSAGES loaded_bare
   \<and> distinct (map fst (MESSAGES (define_MESSAGES loaded_bare)))
   \<and> import_module (posix nothing_installed call_stack) ''foobar''
       = Inl (Exn ModuleNotFoundError (''No module named '' @ [CHR 0x27] @ ''foobar'' @ [CHR 0x27]))
   \<and> isinstance (Exn ModuleNotFoundError (''No module named '' @ [CHR 0x27] @ ''foobar'' @ [CHR 0x27]))
        ImportError
   \<and> map_of (MESSAGES loaded_bare) ''foobar'' = None
   \<and> (\<exists>x w'. import' (posix nothing_installed call_stack) ''foobar'' loaded_bare
                 = Some (Inl x, w') \<and> \<not> isinstance x KeyError)"
proof -
  let ?env = "posix nothing_installed call_stack :: module_object env"
  let ?e = "Exn ModuleNotFoundError (''No module named '' @ [CHR 0x27] @ ''foobar'' @ [CHR 0x27])"
  have run: "import' ?env ''gmso'' loaded_bare =
     Some (Inl (Exn DelayImportError gmso_text),
           loaded_bare\<lparr>import_calls := [''mbuild'', ''gmso''],
             sys_stderr := [NL] @ red_bar 49 @ [NL] @ gmso_text @ [NL] @ red_bar 49 @ [NL]\<rparr>)"
    by code_simp
  have h1: "import_module ?env ''foobar'' = Inl ?e"
    by (simp add: posix_def nothing_installed_def)
  have h2: "isinstance ?e ImportError"
    by (simp add: isinstance_def)
  have h3: "map_of (MESSAGES loaded_bare) ''foobar'' = None"
    by (simp add: loaded_bare_eq)
  show ?thesis
    using run h1 h2 h3
      MESSAGES_read_only [of ?env "''gmso''" loaded_bare]
      MESSAGES_read_only [of ?env "''foobar''" loaded_bare]
    by blast
qed

subsection \<open>Which errors leave \<open>import_\<close>\<close>

text \<open>
  Claim C9, as stated: only the error of both kinds leaves \<open>import_\<close>, and a failure of
  the host's import machinery is never passed on as it is.  It does not hold: the handler
  is \<open>except ImportError\<close>, so when the code of an installed \<open>gmso\<close> raises
  \<open>RuntimeError\<close>, that very exception leaves \<open>import_\<close>, and it is neither a
  \<open>DelayImportError\<close> nor a \<open>SkipTest\<close>.
\<close>

theorem import_error_boundary_counterexample:
  "import_module (posix broken_gmso call_stack) ''gmso''
     = Inl (Exn (OtherError ''RuntimeError'') ''unsupported version'')
   \<and> import' (posix broken_gmso call_stack) ''gmso''
       (snd (module_body (posix broken_gmso call_stack) fresh))
     = Some (Inl (Exn (OtherError ''RuntimeError'') ''unsupported version''),
             loaded_bare\<lparr>import_calls := [''mbuild'', ''gmso'']\<rparr>)
   \<and> \<not> isinstance (Exn (OtherError ''RuntimeError'') ''unsupported version'') DelayImportError
   \<and> \<not> isinstance (Exn (OtherError ''RuntimeError'') ''unsupported version'') SkipTest"
  by code_simp

text \<open>
  Claim C9, amended.  An exception of the import machinery that is no instance of
  \<open>ImportError\<close> is not caught: it leaves \<open>import_\<close> unchanged, and nothing is printed.
  When the import raises an \<open>ImportError\<close>, the module name is a key of the table that the
  module defines, the call has a caller and \<open>os.linesep\<close> is not empty, the error that
  leaves is a \<open>DelayImportError\<close>, an instance of both \<open>ImportError\<close> and \<open>SkipTest\<close>, whose
  argument is the formatted and dedented message.
\<close>

theorem import_error_boundary:
  assumes "import_module env module = Inl e"
  shows "(\<not> isinstance e ImportError \<longrightarrow>
            (\<exists>w'. import' env module w = Some (Inl e, w') \<and> sys_stderr w' = sys_stderr w))
     \<and> (isinstance e ImportError
          \<and> MESSAGES w = MESSAGES (define_MESSAGES w)
          \<and> map_of (MESSAGES w) module = Some template
          \<and> index1 (getouterframes env) = Inr caller
          \<and> os_linesep env \<noteq> [] \<longrightarrow>
            (\<exists>x w'. import' env module w = Some (Inl x, w')
               \<and> x = Exn DelayImportError
                     (dedent (substitute
                        [(''filename'', os_path_basename env (filename caller)),
                         (''line_number'', str_int (lineno caller))] template))
               \<and> isinstance x ImportError \<and> isinstance x SkipTest))"
proof (intro conjI impI)
  assume "\<not> isinstance e ImportError"
  with assms show "\<exists>w'. import' env module w = Some (Inl e, w') \<and> sys_stderr w' = sys_stderr w"
    by (simp add: import'_not_caught)
next
  assume h: "isinstance e ImportError
      \<and> MESSAGES w = MESSAGES (define_MESSAGES w)
      \<and> map_of (MESSAGES w) module = Some template
      \<and> index1 (getouterframes env) = Inr caller
      \<and> os_linesep env \<noteq> []"
  let ?kw = "[(''filename'', os_path_basename env (filename caller)),
      (''line_number'', str_int (lineno caller))]"
  from h have e: "isinstance e ImportError"
    and t: "MESSAGES w = MESSAGES (define_MESSAGES w)"
    and k: "map_of (MESSAGES w) module = Some template"
    and c: "index1 (getouterframes env) = Inr caller" and s: "os_linesep env \<noteq> []"
    by blast+
  have key: "map_of (MESSAGES (define_MESSAGES w)) module = Some template"
    by (subst t [symmetric]) (rule k)
  have fmt: "str_format template ?kw = Some (Inr (substitute ?kw template))"
    by (rule format_table [OF key])
  have "\<exists>w'. import' env module w =
      Some (Inl (Exn DelayImportError (dedent (substitute ?kw template))), w')"
    using import'_listed [OF assms e k c fmt s] by blast
  moreover have "isinstance (Exn DelayImportError (dedent (substitute ?kw template))) ImportError"
    and "isinstance (Exn DelayImportError (dedent (substitute ?kw template))) SkipTest"
    by (simp_all add: isinstance_def)
  ultimately show "\<exists>x w'. import' env module w = Some (Inl x, w')
      \<and> x = Exn DelayImportError (dedent (substitute ?kw template))
      \<and> isinstance x ImportError \<and> isinstance x SkipTest"
    by blast
qed

theorem import_error_boundary_witness:
  "import_module (posix broken_gmso call_stack) ''gmso''
     = Inl (Exn (OtherError ''RuntimeError'') ''unsupported version'')
   \<and> \<not> isinstance (Exn (OtherError ''RuntimeError'') ''unsupported version'') ImportError
   \<and> (\<exists>w'. import' (posix broken_gmso call_stack) ''gmso'' loaded_bare
              = Some (Inl (Exn (OtherError ''RuntimeError'') ''unsupported version''), w')
          \<and> sys_stderr w' = sys_stderr loaded_bare)
   \<and> import_module (posix nothing_installed call_stack) ''gmso''
       = Inl (Exn ModuleNotFoundError (''No module named '' @ [CHR 0x27] @ ''gmso'' @ [CHR 0x27]))
   \<and> isinstance (Exn ModuleNotFoundError (''No module named '' @ [CHR 0x27] @ ''gmso'' @ [CHR 0x27]))
        ImportError
   \<and> MESSAGES loaded_bare = MESSAGES (define_MESSAGES loaded_bare)
   \<and> map_of (MESSAGES loaded_bare) ''gmso'' = Some gmso_message
   \<and> index1 (getouterframes (posix nothing_installed call_stack))
       = Inr \<lparr>filename = ''/home/user/project/run.py'', lineno = 12,
              function_name = ''<module>''\<rparr>
   \<and> os_linesep (posix nothing_installed call_stack) \<noteq> []
   \<and> (\<exists>w'. import' (posix nothing_installed call_stack) ''gmso'' loaded_bare
              = Some (Inl (Exn DelayImportError gmso_text), w'))
   \<and> isinstance (Exn DelayImportError gmso_text) ImportError
   \<and> isinstance (Exn DelayImportError gmso_text) SkipTest"
proof -
  let ?env = "posix nothing_installed call_stack :: module_object env"
  let ?benv = "posix broken_gmso call_stack :: module_object env"
  let ?e = "Exn ModuleNotFoundError (''No module named '' @ [CHR 0x27] @ ''gmso'' @ [CHR 0x27])"
  let ?r = "Exn (OtherError ''RuntimeError'') ''unsupported version''"
  let ?caller = "\<lparr>filename = ''/home/user/project/run.py'', lineno = 12,
      function_name = ''<module>''\<rparr>"
  have b1: "import_module ?benv ''gmso'' = Inl ?r"
    by (simp add: posix_def broken_gmso_def)
  have b2: "\<not> isinstance ?r ImportError"
    by (simp add: isinstance_def)
  have h1: "MESSAGES loaded_bare = MESSAGES (define_MESSAGES loaded_bare)"
    by (simp add: loaded_bare_eq table_defined)
  have h2: "map_of (MESSAGES loaded_bare) ''gmso'' = Some gmso_message"
    by (simp add: loaded_bare_eq)
  have h3: "import_module ?env ''gmso'' = Inl ?e"
    by (simp add: posix_def nothing_installed_def)
  have h4: "isinstance ?e ImportError"
    by (simp add: isinstance_def)
  have h5: "index1 (getouterframes ?env) = Inr ?caller"
    by (simp add: posix_def call_stack_def index1_def)
  have h6: "os_linesep ?env \<noteq> []"
    by (simp add: posix_def)
  have base: "os_path_basename ?env (filename ?caller) = ''run.py''"
    by (simp add: posix_def posix_basename_def)
  have line: "str_int (lineno ?caller) = ''12''"
    by code_simp
  have m: "dedent (substitute [(''filename'', ''run.py''), (''line_number'', ''12'')] gmso_message)
      = gmso_text"
    by code_simp
  from import_error_boundary [OF b1, of loaded_bare] b2
  have p1: "\<exists>w'. import' ?benv ''gmso'' loaded_bare = Some (Inl ?r, w')
      \<and> sys_stderr w' = sys_stderr loaded_bare"
    by blast
  from import_error_boundary [OF h3, of loaded_bare gmso_message ?caller] h1 h2 h4 h5 h6
  have p2: "\<exists>w'. import' ?env ''gmso'' loaded_bare = Some (Inl (Exn DelayImportError gmso_text), w')"
    and p3: "isinstance (Exn DelayImportError gmso_text) ImportError"
    and p4: "isinstance (Exn DelayImportError gmso_text) SkipTest"
    unfolding base line m by blast+
  from b1 b2 p1 h3 h4 h1 h2 h5 h6 p2 p3 p4 show ?thesis
    by blast
qed

subsection \<open>The unlisted module \<open>foobar\<close>\<close>

text \<open>
  Claim C1 asks for an error of both kinds whenever the import fails, whether or not the
  module name is a key of the table.  For \<open>foobar\<close>, which is not installed and not a key,
  the error raised is an \<open>ImportError\<close> and not a \<open>SkipTest\<close>.
\<close>

theorem import_unlisted_not_SkipTest:
  "import' (posix nothing_installed call_stack) ''foobar'' loaded_bare =
     Some (Inl (Exn ImportError ''No module named foobar''),
           loaded_bare\<lparr>import_calls := [''mbuild'', ''foobar'']\<rparr>)
   \<and> isinstance (Exn ImportError ''No module named foobar'') ImportError
   \<and> \<not> isinstance (Exn ImportError ''No module named foobar'') SkipTest"
  by code_simp

text \<open>
  Claim C2 asks for the message \<open>The code at <basename>:<line> requires the <module>
  package\<close> when the module name is no key.  For \<open>foobar\<close>, imported from line 12 of
  \<open>run.py\<close>, the only message produced is the argument \<open>No module named foobar\<close> of the
  error raised, which is not that text.
\<close>

theorem import_unlisted_message_not_fallback:
  "import' (posix nothing_installed call_stack) ''foobar'' loaded_bare =
     Some (Inl (Exn ImportError ''No module named foobar''),
           loaded_bare\<lparr>import_calls := [''mbuild'', ''foobar'']\<rparr>)
   \<and> fallback_text ''foobar'' ''run.py'' ''12''
       = ''The code at run.py:12 requires the foobar package''
   \<and> ''No module named foobar'' \<noteq> fallback_text ''foobar'' ''run.py'' ''12''"
  by code_simp

text \<open>
  Claim C5 asks for a blank line, the bar, the message and the bar on the error stream
  whenever the import fails.  For \<open>foobar\<close> the error stream is afterwards what it was
  before: empty.
\<close>

theorem import_unlisted_prints_nothing:
  "import' (posix nothing_installed call_stack) ''foobar'' loaded_bare =
     Some (Inl (Exn ImportError ''No module named foobar''),
           loaded_bare\<lparr>import_calls := [''mbuild'', ''foobar'']\<rparr>)
   \<and> sys_stderr (loaded_bare\<lparr>import_calls := [''mbuild'', ''foobar'']\<rparr>) = sys_stderr loaded_bare
   \<and> sys_stderr loaded_bare = []"
  by code_simp

subsection \<open>The bar where \<open>os.linesep\<close> is not the newline character\<close>

text \<open>
  Claim C4 asks for a bar as long as the longest line of the message.  The message is
  split at \<open>os.linesep\<close>, and its lines are separated by newline characters on every
  platform.  On Windows, where \<open>os.linesep\<close> is carriage return and newline, the message
  for \<open>gmso\<close> is therefore one piece: the bar has 119 characters \<open>#\<close>, the length of the
  whole message, and the longest line has 49.
\<close>

theorem bar_length_carriage_return_newline:
  "import' (nt nothing_installed nt_call_stack) ''gmso''
       (snd (module_body (nt nothing_installed nt_call_stack) fresh)) =
     Some (Inl (Exn DelayImportError gmso_text),
           loaded_bare\<lparr>import_calls := [''mbuild'', ''gmso''],
             sys_stderr := [NL] @ red_bar 119 @ [NL] @ gmso_text @ [NL] @ red_bar 119 @ [NL]\<rparr>)
   \<and> longest_line gmso_text = 49
   \<and> length gmso_text = 119"
  by code_simp

end
